theory Spec2Isabelle
  imports Main "HOL-Library.Sublist"
begin

section \<open>The Amazon Logistics carrier backend of packagetrack\<close>

text \<open>
  A shallow embedding of \<^verbatim>\<open>packagetrack/carriers/amzl_interface.py\<close>. The module is
  Python 2 code (it tests a \<^verbatim>\<open>str\<close> marker against \<^verbatim>\<open>response.content\<close> and joins
  with \<^verbatim>\<open>u' '\<close>). Strings are modelled as \<^typ>\<open>string\<close>: a character is a code point
  below 256, that is a byte of a \<^verbatim>\<open>str\<close> or a Latin-1 character of a \<^verbatim>\<open>unicode\<close>; text
  with other code points is outside the model. The character classes of \<^verbatim>\<open>re\<close> are the
  ASCII ones, as they are in Python 2 without the \<^verbatim>\<open>UNICODE\<close> flag. Names keep the
  source's spelling; a leading underscore is dropped because an Isabelle name cannot
  start with one.
\<close>

subsection \<open>Python values and string primitives\<close>

text \<open>The values that end up in the query dict: a segment of the tracking number
  (a \<^verbatim>\<open>str\<close>) or the padding integer \<^verbatim>\<open>0\<close>.\<close>

datatype pyval = PyStr string | PyInt int

text \<open>\<^verbatim>\<open>s.split(sep)\<close> for a one-character separator: never empty, one more segment
  than there are separators.\<close>

fun split_str :: "char \<Rightarrow> string \<Rightarrow> string list" where
  "split_str sep [] = [[]]"
| "split_str sep (c # cs) =
     (if c = sep then [] # split_str sep cs
      else (case split_str sep cs of
              [] \<Rightarrow> [[c]]
            | seg # segs \<Rightarrow> (c # seg) # segs))"

subsection \<open>Regular expressions as \<^verbatim>\<open>re\<close> matches them\<close>

text \<open>
  Character classes of Python 2's \<^verbatim>\<open>re\<close> on byte strings: \<^verbatim>\<open>\d\<close> is \<open>[0-9]\<close>,
  \<^verbatim>\<open>\w\<close> is \<open>[a-zA-Z0-9_]\<close>, \<^verbatim>\<open>\s\<close> is \<open>[ \t\n\r\f\v]\<close>. \<open>LitI\<close> is a literal
  character of a pattern compiled with \<^verbatim>\<open>re.IGNORECASE\<close>.
\<close>

definition ascii_lower :: "char \<Rightarrow> char" where
  "ascii_lower c =
     (case map_of (zip ''ABCDEFGHIJKLMNOPQRSTUVWXYZ'' ''abcdefghijklmnopqrstuvwxyz'') c of
        Some l \<Rightarrow> l
      | None \<Rightarrow> c)"

definition is_digit :: "char \<Rightarrow> bool" where
  "is_digit c = (c \<in> set ''0123456789'')"

definition is_word :: "char \<Rightarrow> bool" where
  "is_word c =
     (c \<in> set ''abcdefghijklmnopqrstuvwxyzABCDEFGHIJKLMNOPQRSTUVWXYZ0123456789_'')"

definition is_space :: "char \<Rightarrow> bool" where
  "is_space c = (c \<in> set [CHR '' '', CHR 0x09, CHR 0x0A, CHR 0x0B, CHR 0x0C, CHR 0x0D])"

datatype cclass = Digit | Word | Space | OneOf string | Lit char | LitI char

fun in_class :: "cclass \<Rightarrow> char \<Rightarrow> bool" where
  "in_class Digit c = is_digit c"
| "in_class Word c = is_word c"
| "in_class Space c = is_space c"
| "in_class (OneOf cs) c = (c \<in> set cs)"
| "in_class (Lit a) c = (c = a)"
| "in_class (LitI a) c = (ascii_lower c = ascii_lower a)"

text \<open>The fragment of the pattern language that this module and the patterns that
  \<^verbatim>\<open>strptime\<close> builds need: \<open>Rep n r\<close> is \<^verbatim>\<open>r{n}\<close>, \<open>Opt r\<close> is the greedy
  \<^verbatim>\<open>(?:r)?\<close>, \<open>Plus k\<close> is the greedy \<^verbatim>\<open>k+\<close> over one character class.\<close>

datatype regex =
    Atom cclass
  | Eps
  | Seq regex regex
  | Alt regex regex
  | Opt regex
  | Rep nat regex
  | Plus cclass

text \<open>
  The backtracking matcher. \<open>rmatch r s\<close> lists what is left of \<open>s\<close> after each way
  of matching \<open>r\<close> at the start of \<open>s\<close>, in the order in which the engine tries them:
  the left alternative first, the longer repetition first. \<^verbatim>\<open>re.match\<close> returns the
  first of them, and \<^verbatim>\<open>None\<close> when there is none.
\<close>

fun plus_match :: "cclass \<Rightarrow> string \<Rightarrow> string list" where
  "plus_match k [] = []"
| "plus_match k (c # cs) = (if in_class k c then plus_match k cs @ [cs] else [])"

fun rep_match :: "nat \<Rightarrow> (string \<Rightarrow> string list) \<Rightarrow> string \<Rightarrow> string list" where
  "rep_match 0 m s = [s]"
| "rep_match (Suc n) m s = concat (map (rep_match n m) (m s))"

primrec rmatch :: "regex \<Rightarrow> string \<Rightarrow> string list" where
  "rmatch (Atom k) =
     (\<lambda>s. case s of [] \<Rightarrow> [] | c # cs \<Rightarrow> if in_class k c then [cs] else [])"
| "rmatch Eps = (\<lambda>s. [s])"
| "rmatch (Seq r1 r2) = (\<lambda>s. concat (map (rmatch r2) (rmatch r1 s)))"
| "rmatch (Alt r1 r2) = (\<lambda>s. rmatch r1 s @ rmatch r2 s)"
| "rmatch (Opt r) = (\<lambda>s. rmatch r s @ [s])"
| "rmatch (Rep n r) = rep_match n (rmatch r)"
| "rmatch (Plus k) = plus_match k"

text \<open>The language of a pattern: the strings that match it as a whole. This is the
  reading of "a string matches the pattern" that the matcher is compared with.\<close>

fun lang_pow :: "nat \<Rightarrow> string set \<Rightarrow> string set" where
  "lang_pow 0 L = {[]}"
| "lang_pow (Suc n) L = {u @ v | u v. u \<in> L \<and> v \<in> lang_pow n L}"

primrec lang :: "regex \<Rightarrow> string set" where
  "lang (Atom k) = {[c] | c. in_class k c}"
| "lang Eps = {[]}"
| "lang (Seq r1 r2) = {u @ v | u v. u \<in> lang r1 \<and> v \<in> lang r2}"
| "lang (Alt r1 r2) = lang r1 \<union> lang r2"
| "lang (Opt r) = insert [] (lang r)"
| "lang (Rep n r) = lang_pow n (lang r)"
| "lang (Plus k) = {w. w \<noteq> [] \<and> list_all (in_class k) w}"

subsection \<open>Tracking-number recognition\<close>

text \<open>\<^verbatim>\<open>_TN_REGEX = r'\d{3}-\d{7}-\d{7}(?::\w+)?'\<close>\<close>

definition TN_REGEX :: regex where
  "TN_REGEX =
     Seq (Rep 3 (Atom Digit)) (Seq (Atom (Lit CHR ''-''))
    (Seq (Rep 7 (Atom Digit)) (Seq (Atom (Lit CHR ''-''))
    (Seq (Rep 7 (Atom Digit))
         (Opt (Seq (Atom (Lit CHR '':'')) (Plus Word)))))))"

text \<open>\<^verbatim>\<open>return bool(re.match(self._TN_REGEX, tracking_number))\<close>\<close>

definition identify :: "string \<Rightarrow> bool" where
  "identify tracking_number = (rmatch TN_REGEX tracking_number \<noteq> [])"

subsection \<open>Tracking-number decomposition\<close>

definition url_template_keys :: "string list" where
  "url_template_keys = [''order_id'', ''item_id'', ''package_idx'']"

text \<open>
  \<^verbatim>\<open>parts = tracking_number.split(':')\<close>,
  \<^verbatim>\<open>dict(zip(self._url_template_keys, list(parts) + [0, 0, 0]))\<close>.
  \<^verbatim>\<open>zip\<close> stops at the shorter list; the keys are distinct, so the first binding
  of \<^const>\<open>map_of\<close> is the binding of the dict.
\<close>

definition parse_tracking_number :: "string \<Rightarrow> (string \<rightharpoonup> pyval)" where
  "parse_tracking_number tracking_number =
     (let parts = split_str CHR '':'' tracking_number
      in map_of (zip url_template_keys (map PyStr parts @ [PyInt 0, PyInt 0, PyInt 0])))"

text \<open>The positional reading of the specification: segment \<open>i\<close> when there is one,
  the integer \<open>0\<close> otherwise.\<close>

definition segment_or_zero :: "string list \<Rightarrow> nat \<Rightarrow> pyval" where
  "segment_or_zero parts i = (if i < length parts then PyStr (parts ! i) else PyInt 0)"

subsection \<open>Building the carrier URL\<close>

definition digit_char :: "nat \<Rightarrow> char" where
  "digit_char n = ''0123456789'' ! (n mod 10)"

fun str_of_nat :: "nat \<Rightarrow> string" where
  "str_of_nat n =
     (if n < 10 then [digit_char n] else str_of_nat (n div 10) @ [digit_char (n mod 10)])"

declare str_of_nat.simps [simp del]

definition str_of_int :: "int \<Rightarrow> string" where
  "str_of_int i = (if i < 0 then CHR ''-'' # str_of_nat (nat (- i)) else str_of_nat (nat i))"

text \<open>What \<^verbatim>\<open>str.format\<close> and \<^verbatim>\<open>%s\<close> print for a value of the query.\<close>

fun py_str :: "pyval \<Rightarrow> string" where
  "py_str (PyStr s) = s"
| "py_str (PyInt i) = str_of_int i"

text \<open>\<^verbatim>\<open>_url_template.format(order_id=order_id, item_id=item_id, package_idx=package_idx)\<close>\<close>

definition url_template_format :: "pyval \<Rightarrow> pyval \<Rightarrow> pyval \<Rightarrow> string" where
  "url_template_format order_id item_id package_idx =
     ''https://www.amazon.com/progress-tracker/package/?itemId='' @ py_str item_id
       @ ''&orderId='' @ py_str order_id
       @ ''&packageIndex='' @ py_str package_idx"

subsection \<open>Points in time and \<^verbatim>\<open>datetime.strptime\<close>\<close>

text \<open>A \<^verbatim>\<open>datetime.datetime\<close>. The two formats of this module have no directive
  for seconds or microseconds, which are therefore always zero and left out.\<close>

record datetime =
  dt_year :: nat
  dt_month :: nat
  dt_day :: nat
  dt_hour :: nat
  dt_minute :: nat

definition is_leap :: "nat \<Rightarrow> bool" where
  "is_leap y = (y mod 4 = 0 \<and> (y mod 100 \<noteq> 0 \<or> y mod 400 = 0))"

definition days_in_month :: "nat \<Rightarrow> nat \<Rightarrow> nat" where
  "days_in_month y m =
     (if m = 2 \<and> is_leap y then 29
      else [31, 28, 31, 30, 31, 30, 31, 31, 30, 31, 30, 31] ! (m - 1))"

text \<open>The check of the \<^verbatim>\<open>date\<close> constructor, which raises \<^verbatim>\<open>ValueError\<close> otherwise.\<close>

definition valid_date :: "nat \<Rightarrow> nat \<Rightarrow> nat \<Rightarrow> bool" where
  "valid_date y m d =
     (1 \<le> y \<and> y \<le> 9999 \<and> 1 \<le> m \<and> m \<le> 12 \<and> 1 \<le> d \<and> d \<le> days_in_month y m)"

text \<open>The names of the C locale, lower-cased as \<^verbatim>\<open>LocaleTime\<close> stores them;
  \<^verbatim>\<open>f_month\<close> starts with an empty name so that a month's index is its number.\<close>

definition f_weekday :: "string list" where
  "f_weekday = [''monday'', ''tuesday'', ''wednesday'', ''thursday'', ''friday'',
                ''saturday'', ''sunday'']"

definition f_month :: "string list" where
  "f_month = [[], ''january'', ''february'', ''march'', ''april'', ''may'', ''june'',
              ''july'', ''august'', ''september'', ''october'', ''november'', ''december'']"

definition am_pm :: "string list" where
  "am_pm = [''am'', ''pm'']"

definition lit_i :: "string \<Rightarrow> regex" where
  "lit_i s = foldr (\<lambda>c r. Seq (Atom (LitI c)) r) s Eps"

fun alt_list :: "regex list \<Rightarrow> regex" where
  "alt_list [] = Eps"
| "alt_list [r] = r"
| "alt_list (r # rs) = Alt r (alt_list rs)"

text \<open>\<^verbatim>\<open>TimeRE.__seqToRE\<close>: the names, longest first (a stable sort), as one
  alternation.\<close>

definition seqToRE :: "string list \<Rightarrow> regex" where
  "seqToRE to_convert =
     alt_list (map lit_i (sort_key (\<lambda>s. - int (length s)) to_convert))"

definition nonzero_digits :: string where
  "nonzero_digits = ''123456789''"

text \<open>The directives of \<^verbatim>\<open>TimeRE\<close> that the two formats use:
  \<^verbatim>\<open>'I': 1[0-2]|0[1-9]|[1-9]\<close>, \<^verbatim>\<open>'M': [0-5]\d|\d\<close>,
  \<^verbatim>\<open>'d': 3[0-1]|[1-2]\d|0[1-9]|[1-9]| [1-9]\<close>, \<^verbatim>\<open>'Y': \d\d\d\d\<close>, and the
  locale's names for \<^verbatim>\<open>'A'\<close>, \<^verbatim>\<open>'B'\<close>, \<^verbatim>\<open>'p'\<close>. Another directive is not
  modelled (\<open>None\<close>).\<close>

definition directive :: "char \<Rightarrow> regex option" where
  "directive d =
     (if d = CHR ''I'' then
        Some (Alt (Seq (Atom (Lit CHR ''1'')) (Atom (OneOf ''012'')))
             (Alt (Seq (Atom (Lit CHR ''0'')) (Atom (OneOf nonzero_digits)))
                  (Atom (OneOf nonzero_digits))))
      else if d = CHR ''M'' then
        Some (Alt (Seq (Atom (OneOf ''012345'')) (Atom Digit)) (Atom Digit))
      else if d = CHR ''d'' then
        Some (Alt (Seq (Atom (Lit CHR ''3'')) (Atom (OneOf ''01'')))
             (Alt (Seq (Atom (OneOf ''12'')) (Atom Digit))
             (Alt (Seq (Atom (Lit CHR ''0'')) (Atom (OneOf nonzero_digits)))
             (Alt (Atom (OneOf nonzero_digits))
                  (Seq (Atom (Lit CHR '' '')) (Atom (OneOf nonzero_digits)))))))
      else if d = CHR ''Y'' then Some (Rep 4 (Atom Digit))
      else if d = CHR ''A'' then Some (seqToRE f_weekday)
      else if d = CHR ''B'' then Some (seqToRE (tl f_month))
      else if d = CHR ''p'' then Some (seqToRE am_pm)
      else None)"

text \<open>
  \<^verbatim>\<open>TimeRE.pattern\<close>: a run of whitespace in the format becomes \<^verbatim>\<open>\s+\<close>, a directive
  becomes its named group, any other character stands for itself (under
  \<^verbatim>\<open>IGNORECASE\<close>). A piece is a pattern with the name of its group, if it is one.
\<close>

fun pattern :: "string \<Rightarrow> (char option \<times> regex) list option" where
  "pattern [] = Some []"
| "pattern [c] =
     (if c = CHR ''%'' then None
      else Some [(None, if is_space c then Plus Space else Atom (LitI c))])"
| "pattern (c # d # cs) =
     (if c = CHR ''%'' then
        (case (directive d, pattern cs) of
           (Some r, Some ps) \<Rightarrow> Some ((Some d, r) # ps)
         | _ \<Rightarrow> None)
      else if is_space c \<and> is_space d then pattern (d # cs)
      else (case pattern (d # cs) of
              Some ps \<Rightarrow> Some ((None, if is_space c then Plus Space else Atom (LitI c)) # ps)
            | None \<Rightarrow> None))"

text \<open>
  Matching the pieces in sequence, with backtracking across them: each result is the
  text of the groups and what is left of the string, in the engine's order.
\<close>

fun match_pieces ::
  "(char option \<times> regex) list \<Rightarrow> string \<Rightarrow> ((char \<times> string) list \<times> string) list" where
  "match_pieces [] s = [([], s)]"
| "match_pieces ((g, r) # ps) s =
     concat (map (\<lambda>rest.
        map (\<lambda>(groups, left).
               (case g of
                  None \<Rightarrow> groups
                | Some d \<Rightarrow> (d, take (length s - length rest) s) # groups, left))
            (match_pieces ps rest))
        (rmatch r s))"

text \<open>
  Whitespace for the methods of a \<^verbatim>\<open>unicode\<close> string (\<^verbatim>\<open>strip\<close>, \<^verbatim>\<open>split\<close>), which is what
  BeautifulSoup returns: the characters for which \<^verbatim>\<open>unicode.isspace\<close> holds. Below 256
  these are the six ASCII ones, the separators \<open>0x1C\<close> to \<open>0x1F\<close>, the next-line
  character \<open>0x85\<close> and the no-break space \<open>0xA0\<close>.
\<close>

definition is_pyspace :: "char \<Rightarrow> bool" where
  "is_pyspace c =
     (is_space c \<or> c \<in> set [CHR 0x1C, CHR 0x1D, CHR 0x1E, CHR 0x1F, CHR 0x85, CHR 0xA0])"

definition strip_chars :: "(char \<Rightarrow> bool) \<Rightarrow> string \<Rightarrow> string" where
  "strip_chars ws s = rev (dropWhile ws (rev (dropWhile ws s)))"

text \<open>\<^verbatim>\<open>text.strip()\<close> on a \<^verbatim>\<open>unicode\<close> string.\<close>

definition strip :: "string \<Rightarrow> string" where
  "strip s = strip_chars is_pyspace s"

text \<open>\<^verbatim>\<open>text.lower()\<close> on a \<^verbatim>\<open>str\<close> in the C locale, as \<^verbatim>\<open>_strptime\<close> applies it to the
  text of a group.\<close>

definition lower :: "string \<Rightarrow> string" where
  "lower s = map ascii_lower s"

text \<open>\<^verbatim>\<open>text.lower()\<close> on a \<^verbatim>\<open>unicode\<close> string: below 256 the capital letters are the
  ASCII ones and \<open>0xC0\<close> to \<open>0xDE\<close> without the multiplication sign \<open>0xD7\<close>, each 32
  below its small letter.\<close>

definition latin1_lower :: "char \<Rightarrow> char" where
  "latin1_lower c =
     (let n = (of_char c :: nat)
      in if (192 \<le> n \<and> n \<le> 214) \<or> (216 \<le> n \<and> n \<le> 222) then char_of (n + 32)
         else ascii_lower c)"

definition unicode_lower :: "string \<Rightarrow> string" where
  "unicode_lower s = map latin1_lower s"

fun index_of :: "'a \<Rightarrow> 'a list \<Rightarrow> nat" where
  "index_of x [] = 0"
| "index_of x (y # ys) = (if x = y then 0 else Suc (index_of x ys))"

text \<open>\<^verbatim>\<open>int(text)\<close> for the text of a numeric group (digits, after an optional blank):
  the blanks around the digits are dropped.\<close>

definition py_int :: "string \<Rightarrow> nat" where
  "py_int s = foldl (\<lambda>a c. 10 * a + index_of c ''0123456789'') 0 (strip_chars is_space s)"

text \<open>
  \<^verbatim>\<open>datetime.datetime.strptime(data_string, format)\<close>; \<open>None\<close> is \<^verbatim>\<open>ValueError\<close>.
  As in \<^verbatim>\<open>_strptime\<close>: the compiled format is matched at the start of the string and
  the first match must use all of it; the defaults are 1900-01-01 00:00; the hour of
  \<^verbatim>\<open>%I\<close> is corrected by \<^verbatim>\<open>%p\<close>; the weekday is read and not compared with the date;
  the date must exist. A \<^verbatim>\<open>unicode\<close> argument is first encoded as ASCII, and a character
  from 128 on raises \<^verbatim>\<open>UnicodeEncodeError\<close>, which is a \<^verbatim>\<open>ValueError\<close>; here no piece of a
  pattern matches such a character, so the result is \<open>None\<close> as well.
\<close>

definition hour_of :: "string \<Rightarrow> string \<Rightarrow> nat" where
  "hour_of I p =
     (let hour = py_int I; ampm = lower p
      in if ampm = [] \<or> ampm = am_pm ! 0 then (if hour = 12 then 0 else hour)
         else if ampm = am_pm ! 1 then (if hour \<noteq> 12 then hour + 12 else hour)
         else hour)"

definition group_or :: "(char \<times> string) list \<Rightarrow> char \<Rightarrow> 'a \<Rightarrow> (string \<Rightarrow> 'a) \<Rightarrow> 'a" where
  "group_or found_dict key dflt f = (case map_of found_dict key of None \<Rightarrow> dflt | Some v \<Rightarrow> f v)"

definition strptime :: "string \<Rightarrow> string \<Rightarrow> datetime option" where
  "strptime data_string format =
     (case pattern format of
        None \<Rightarrow> None
      | Some format_regex \<Rightarrow>
          (case match_pieces format_regex data_string of
             [] \<Rightarrow> None
           | (found_dict, left) # _ \<Rightarrow>
               if left \<noteq> [] then None
               else
                 let year = group_or found_dict CHR ''Y'' 1900 py_int;
                     month = group_or found_dict CHR ''B'' 1 (\<lambda>v. index_of (lower v) f_month);
                     day = group_or found_dict CHR ''d'' 1 py_int;
                     hour = group_or found_dict CHR ''I'' 0
                              (\<lambda>v. hour_of v (group_or found_dict CHR ''p'' [] id));
                     minute = group_or found_dict CHR ''M'' 0 py_int
                 in if valid_date year month day
                    then Some \<lparr>dt_year = year, dt_month = month, dt_day = day,
                               dt_hour = hour, dt_minute = minute\<rparr>
                    else None))"

subsection \<open>Errors\<close>

text \<open>The exceptions that leave this module: the two of \<^verbatim>\<open>.errors\<close> with their
  message, and the built-in ones that its own code can raise.\<close>

datatype error =
    TrackingApiFailure string
  | TrackingNumberFailure string
  | TypeError
  | IndexError
  | KeyError

subsection \<open>Timestamp resolution\<close>

text \<open>\<^verbatim>\<open>datetime.datetime()\<close>: the constructor requires year, month and day, so the
  call without arguments raises \<^verbatim>\<open>TypeError\<close>.\<close>

definition datetime_no_arguments :: "error + datetime" where
  "datetime_no_arguments = Inl TypeError"

text \<open>
  \<^verbatim>\<open>_parse_timestamp(self, timestamp, year=None)\<close>; \<open>now_year\<close> is
  \<^verbatim>\<open>datetime.datetime.now().year\<close>. The \<^verbatim>\<open>TypeError\<close> is raised inside the handler of
  \<^verbatim>\<open>ValueError\<close>, where nothing catches it.
\<close>

definition parse_timestamp :: "nat \<Rightarrow> string \<Rightarrow> string option \<Rightarrow> error + datetime" where
  "parse_timestamp now_year timestamp year =
     (let year = (case year of None \<Rightarrow> str_of_nat now_year | Some y \<Rightarrow> y);
          timestamp = timestamp @ '' '' @ year
      in case strptime timestamp ''%I:%M %p %A, %B %d %Y'' of
           Some t \<Rightarrow> Inr t
         | None \<Rightarrow>
             (case strptime timestamp ''%A, %B %d %Y'' of
                Some t \<Rightarrow> Inr t
              | None \<Rightarrow> datetime_no_arguments))"

subsection \<open>The parsed page\<close>

text \<open>
  The tree that BeautifulSoup builds, as far as this module looks at it: a tag with its
  \<^verbatim>\<open>id\<close> attribute, the list of its \<^verbatim>\<open>class\<close> attribute and its children, or a piece of
  text. No selector of the module mentions a tag name.
\<close>

datatype node =
    Tag "string option" "string list" "node list"
  | NavigableString string

text \<open>\<^verbatim>\<open>tag.text\<close>: the text pieces below the tag, joined in document order.\<close>

fun get_text :: "node \<Rightarrow> string" where
  "get_text (NavigableString s) = s"
| "get_text (Tag i cs children) = concat (map get_text children)"

text \<open>Everything below a node, in document order (a node before its children).\<close>

fun descendants :: "node \<Rightarrow> node list" where
  "descendants (NavigableString s) = []"
| "descendants (Tag i cs children) = concat (map (\<lambda>c. c # descendants c) children)"

fun has_class :: "string \<Rightarrow> node \<Rightarrow> bool" where
  "has_class k (Tag i cs children) = (k \<in> set cs)"
| "has_class k (NavigableString s) = False"

fun has_id :: "string \<Rightarrow> node \<Rightarrow> bool" where
  "has_id k (Tag i cs children) = (i = Some k)"
| "has_id k (NavigableString s) = False"

fun attrs_class :: "node \<Rightarrow> string list" where
  "attrs_class (Tag i cs children) = cs"
| "attrs_class (NavigableString s) = []"

text \<open>
  The module's \<^verbatim>\<open>_find(tag, ...)\<close>: \<^verbatim>\<open>tag.find(...)\<close> is the first matching tag below
  \<open>tag\<close>; when there is none it is \<^verbatim>\<open>None\<close>, \<^verbatim>\<open>.text\<close> raises \<^verbatim>\<open>AttributeError\<close> and
  the result is the empty string. The criterion (\<^verbatim>\<open>class_=\<close> or \<^verbatim>\<open>id=\<close>) is \<open>crit\<close>.
\<close>

definition find_contents :: "node \<Rightarrow> (node \<Rightarrow> bool) \<Rightarrow> string" where
  "find_contents tag crit =
     (case List.find crit (descendants tag) of
        None \<Rightarrow> []
      | Some found \<Rightarrow> strip (get_text found))"

text \<open>
  \<^verbatim>\<open>soup.select('#tracking-events-container > * > .a-row')\<close>: the tags of class
  \<^verbatim>\<open>a-row\<close> whose parent is a child of a tag with that id, in document order. The walk
  carries whether the grandparent (\<open>gp\<close>) and the parent (\<open>p\<close>) of the node have the id.
\<close>

fun select_a_row :: "bool \<Rightarrow> bool \<Rightarrow> node \<Rightarrow> node list" where
  "select_a_row gp p (NavigableString s) = []"
| "select_a_row gp p (Tag i cs children) =
     (if gp \<and> ''a-row'' \<in> set cs then [Tag i cs children] else [])
       @ concat (map (select_a_row p (i = Some ''tracking-events-container'')) children)"

text \<open>\<^verbatim>\<open>container_tag.select('.a-spacing-large')\<close>\<close>

definition select_a_spacing_large :: "node \<Rightarrow> node list" where
  "select_a_spacing_large container_tag =
     filter (has_class ''a-spacing-large'') (descendants container_tag)"

definition IGNORE_TAG_CLASSES :: "string list" where
  "IGNORE_TAG_CLASSES = [''tracking-event-carrier-header'', ''tracking-event-trackingId-text'',
                         ''tracking-event-timezoneLabel'']"

text \<open>\<^verbatim>\<open>all(attr not in tag.attrs['class'] for attr in self._IGNORE_TAG_CLASSES)\<close>\<close>

definition not_ignored :: "node \<Rightarrow> bool" where
  "not_ignored tag = list_all (\<lambda>attr. attr \<notin> set (attrs_class tag)) IGNORE_TAG_CLASSES"

text \<open>\<^verbatim>\<open>text.split()\<close>: the maximal runs of characters that are not whitespace.\<close>

fun split_ws :: "string \<Rightarrow> string list" where
  "split_ws [] = [[]]"
| "split_ws (c # cs) =
     (if is_pyspace c then [] # split_ws cs
      else (case split_ws cs of
              [] \<Rightarrow> [[c]]
            | w # ws \<Rightarrow> (c # w) # ws))"

definition split_words :: "string \<Rightarrow> string list" where
  "split_words s = filter (\<lambda>w. w \<noteq> []) (split_ws s)"

record raw_event =
  ev_timestamp :: datetime
  ev_message :: string
  ev_location :: string

record tracking_data =
  td_id :: string
  td_primary_status :: string
  td_secondary_status :: string
  td_milestone_message :: string
  td_exception_source :: string
  td_exception_message :: string
  td_events :: "raw_event list"

text \<open>The rows that the two \<^verbatim>\<open>for\<close> clauses of the comprehension reach, each with its
  container, in the order in which they are reached.\<close>

definition event_rows :: "node \<Rightarrow> (node \<times> node) list" where
  "event_rows soup =
     concat (map (\<lambda>container_tag.
                    map (\<lambda>tag. (container_tag, tag))
                        (filter not_ignored (select_a_spacing_large container_tag)))
                 (filter not_ignored (select_a_row False False soup)))"

text \<open>The dict that the comprehension builds for one row: the time of the row and the
  date of its container, joined by a blank, stripped and resolved with the current
  year; then the message and the location.\<close>

definition make_event :: "nat \<Rightarrow> node \<times> node \<Rightarrow> error + raw_event" where
  "make_event now_year row =
     (case row of (container_tag, tag) \<Rightarrow>
        (case parse_timestamp now_year
                (strip (find_contents tag (has_class ''tracking-event-time'') @ '' '' @
                        find_contents container_tag (has_class ''tracking-event-date'')))
                None of
           Inl e \<Rightarrow> Inl e
         | Inr t \<Rightarrow>
             Inr \<lparr>ev_timestamp = t,
                  ev_message = find_contents tag (has_class ''tracking-event-message''),
                  ev_location = find_contents tag (has_class ''tracking-event-location'')\<rparr>))"

text \<open>A comprehension whose element expression can raise: the first exception ends it.\<close>

fun collect :: "('a \<Rightarrow> error + 'b) \<Rightarrow> 'a list \<Rightarrow> error + 'b list" where
  "collect f [] = Inr []"
| "collect f (x # xs) =
     (case f x of
        Inl e \<Rightarrow> Inl e
      | Inr y \<Rightarrow> (case collect f xs of Inl e \<Rightarrow> Inl e | Inr ys \<Rightarrow> Inr (y # ys)))"

definition extract_events :: "nat \<Rightarrow> node \<Rightarrow> error + raw_event list" where
  "extract_events now_year soup = collect (make_event now_year) (event_rows soup)"

text \<open>\<^verbatim>\<open>_parse_tracking_response(self, soup)\<close>. \<^verbatim>\<open>.split()[-1]\<close> raises \<^verbatim>\<open>IndexError\<close>
  when the text of the tracking-id element has no word.\<close>

definition parse_tracking_response :: "nat \<Rightarrow> node \<Rightarrow> error + tracking_data" where
  "parse_tracking_response now_year soup =
     (case split_words (find_contents soup (has_class ''carrierRelatedInfo-trackingId-text'')) of
        [] \<Rightarrow> Inl IndexError
      | w # ws \<Rightarrow>
          (case extract_events now_year soup of
             Inl e \<Rightarrow> Inl e
           | Inr evs \<Rightarrow>
               Inr \<lparr>td_id = last (w # ws),
                    td_primary_status = find_contents soup (has_id ''primaryStatus''),
                    td_secondary_status = find_contents soup (has_id ''secondaryStatus''),
                    td_milestone_message =
                      find_contents soup (has_class ''milestone-primaryMessage''),
                    td_exception_source = find_contents soup (has_class ''lastExceptionSource''),
                    td_exception_message =
                      find_contents soup (has_class ''lastExceptionExplanation''),
                    td_events = evs\<rparr>))"

subsection \<open>Fetching the page\<close>

text \<open>What the module reads of a \<^verbatim>\<open>requests\<close> response. \<^verbatim>\<open>response.ok\<close> is false
  exactly for the statuses for which \<^verbatim>\<open>raise_for_status\<close> raises, 400 to 599.\<close>

record response =
  status_code :: int
  content :: string

definition ok :: "response \<Rightarrow> bool" where
  "ok r = (\<not> (400 \<le> status_code r \<and> status_code r < 600))"

text \<open>A success status in the sense of HTTP, the class 2xx. This is not what the module
  tests; it is the reading of "success" that \<open>ok\<close> is compared with.\<close>

definition http_success :: "int \<Rightarrow> bool" where
  "http_success code = (200 \<le> code \<and> code < 300)"

text \<open>
  Modelled from the spec: the class \<^verbatim>\<open>TrackingInfo\<close> of \<^verbatim>\<open>packagetrack.data\<close>, which is
  not among the sources. It is "identified by the original tracking number; holds an
  ordered sequence of Event {location, timestamp, detail}, a delivered flag, and (if
  delivered) a delivery timestamp", with "an append event operation" and the
  attributes \<^verbatim>\<open>status\<close>, \<^verbatim>\<open>is_delivered\<close>, \<^verbatim>\<open>last_update\<close>, \<^verbatim>\<open>delivery_date\<close>. How
  \<^verbatim>\<open>status\<close> and \<^verbatim>\<open>last_update\<close> are computed is not given; they are parameters of the
  environment below and may raise.
\<close>

record tracking_event =
  te_location :: string
  te_timestamp :: datetime
  te_detail :: string

record tracking_info =
  ti_tracking_number :: string
  ti_events :: "tracking_event list"
  ti_is_delivered :: bool
  ti_delivery_date :: "datetime option"

text \<open>Modelled from the spec: the constructor of \<^verbatim>\<open>TrackingInfo\<close>, "from a
  tracking-number identity"; a new record has no events and no delivery date.\<close>

definition TrackingInfo :: "string \<Rightarrow> tracking_info" where
  "TrackingInfo tracking_number =
     \<lparr>ti_tracking_number = tracking_number, ti_events = [],
      ti_is_delivered = False, ti_delivery_date = None\<rparr>"

text \<open>Modelled from the spec: \<^verbatim>\<open>TrackingInfo.create_event\<close>, the "append event operation
  taking (location, timestamp, detail)".\<close>

definition create_event :: "tracking_info \<Rightarrow> string \<Rightarrow> datetime \<Rightarrow> string \<Rightarrow> tracking_info" where
  "create_event info location timestamp detail =
     info\<lparr>ti_events := ti_events info @
            [\<lparr>te_location = location, te_timestamp = timestamp, te_detail = detail\<rparr>]\<rparr>"

text \<open>
  What the module takes from outside: the HTTP client (\<open>Inl\<close> is the text of the
  exception that \<^verbatim>\<open>requests.get\<close> raised), the HTML parser, the clock, and the two
  computed attributes of \<^verbatim>\<open>TrackingInfo\<close>.
\<close>

record env =
  requests_get :: "string \<Rightarrow> string + response"
  BeautifulSoup :: "string \<Rightarrow> node"
  now_year :: nat
  info_status :: "tracking_info \<Rightarrow> error + string"
  info_last_update :: "tracking_info \<Rightarrow> error + datetime"

text \<open>What a call does besides returning: the requests it sends and the bodies it
  hands to the HTML parser, in order.\<close>

datatype effect = HttpGet string | HtmlParse string

text \<open>\<^verbatim>\<open>_get_tracking_data(self, order_id, item_id=0, package_idx=0)\<close>\<close>

definition get_tracking_data ::
  "env \<Rightarrow> pyval \<Rightarrow> pyval \<Rightarrow> pyval \<Rightarrow> effect list \<times> (error + tracking_data)" where
  "get_tracking_data env order_id item_id package_idx =
     (let tracking_url = url_template_format order_id item_id package_idx
      in case requests_get env tracking_url of
           Inl err \<Rightarrow> ([HttpGet tracking_url], Inl (TrackingApiFailure err))
         | Inr response \<Rightarrow>
             if \<not> ok response then
               ([HttpGet tracking_url],
                Inl (TrackingApiFailure
                       (''Amazon returned HTTP status: '' @ str_of_int (status_code response))))
             else if \<not> sublist ''carrierRelatedInfo-trackingId-text'' (content response) then
               ([HttpGet tracking_url], Inl (TrackingNumberFailure ''No shipment found''))
             else
               ([HttpGet tracking_url, HtmlParse (content response)],
                parse_tracking_response (now_year env)
                  (BeautifulSoup env (content response))))"

subsection \<open>The public entry points\<close>

text \<open>The branch of \<^verbatim>\<open>is_delivered\<close> for a given \<^verbatim>\<open>tracking_info\<close>:
  \<^verbatim>\<open>tracking_info.status.lower() == 'delivered'\<close>.\<close>

definition status_is_delivered :: "env \<Rightarrow> tracking_info \<Rightarrow> error + bool" where
  "status_is_delivered env tracking_info =
     (case info_status env tracking_info of
        Inl e \<Rightarrow> Inl e
      | Inr status \<Rightarrow> Inr (unicode_lower status = ''delivered''))"

text \<open>The end of \<^verbatim>\<open>track\<close>: the delivered flag, then the delivery date.\<close>

definition set_delivery :: "env \<Rightarrow> tracking_info \<Rightarrow> error + tracking_info" where
  "set_delivery env info =
     (case status_is_delivered env info of
        Inl e \<Rightarrow> Inl e
      | Inr delivered \<Rightarrow>
          (let info = info\<lparr>ti_is_delivered := delivered\<rparr>
           in if ti_is_delivered info then
                (case info_last_update env info of
                   Inl e \<Rightarrow> Inl e
                 | Inr t \<Rightarrow> Inr (info\<lparr>ti_delivery_date := Some t\<rparr>))
              else Inr info))"

text \<open>
  \<^verbatim>\<open>track(self, tracking_number)\<close>. The line before its \<^verbatim>\<open>def\<close> is the expression
  \<^verbatim>\<open>BaseInterface.require_valid_tracking_number\<close> without the \<^verbatim>\<open>@\<close> of a decorator: it
  is evaluated and dropped, and \<^verbatim>\<open>track\<close> is the plain function. The query always has
  the three keys, so the call with \<^verbatim>\<open>**\<close> binds all three parameters.
\<close>

definition track :: "env \<Rightarrow> string \<Rightarrow> effect list \<times> (error + tracking_info)" where
  "track env tracking_number =
     (let info = TrackingInfo tracking_number;
          query = parse_tracking_number tracking_number
      in case query ''order_id'' of
           None \<Rightarrow> ([], Inl TypeError)
         | Some order_id \<Rightarrow>
             (case get_tracking_data env order_id
                     (case query ''item_id'' of None \<Rightarrow> PyInt 0 | Some v \<Rightarrow> v)
                     (case query ''package_idx'' of None \<Rightarrow> PyInt 0 | Some v \<Rightarrow> v) of
                (trace, Inl e) \<Rightarrow> (trace, Inl e)
              | (trace, Inr data) \<Rightarrow>
                  (trace,
                   set_delivery env
                     (foldl (\<lambda>info event.
                               create_event info (ev_location event) (ev_timestamp event)
                                 (ev_message event))
                            info (td_events data)))))"

text \<open>\<^verbatim>\<open>is_delivered(self, tracking_number, tracking_info=None)\<close>\<close>

definition is_delivered ::
  "env \<Rightarrow> string \<Rightarrow> tracking_info option \<Rightarrow> effect list \<times> (error + bool)" where
  "is_delivered env tracking_number tracking_info =
     (case tracking_info of
        Some info \<Rightarrow> ([], status_is_delivered env info)
      | None \<Rightarrow>
          (case track env tracking_number of
             (trace, Inl e) \<Rightarrow> (trace, Inl e)
           | (trace, Inr info) \<Rightarrow> (trace, status_is_delivered env info)))"

text \<open>\<^verbatim>\<open>url(self, tracking_number)\<close>\<close>

definition url :: "string \<Rightarrow> error + string" where
  "url tracking_number =
     (let query = parse_tracking_number tracking_number
      in case (query ''order_id'', query ''item_id'', query ''package_idx'') of
           (Some order_id, Some item_id, Some package_idx) \<Rightarrow>
             Inr (url_template_format order_id item_id package_idx)
         | _ \<Rightarrow> Inl KeyError)"

subsection \<open>Document order and fixtures\<close>

text \<open>Every row of every container, in document order: the containers as the page
  lists them, and within a container its rows as the page lists them. This is the order
  that the extraction is compared with.\<close>

definition all_rows :: "node \<Rightarrow> (node \<times> node) list" where
  "all_rows soup =
     concat (map (\<lambda>container_tag.
                    map (\<lambda>tag. (container_tag, tag)) (select_a_spacing_large container_tag))
                 (select_a_row False False soup))"

definition text_tag :: "string \<Rightarrow> string \<Rightarrow> node" where
  "text_tag cls s = Tag None [cls] [NavigableString s]"

definition event_row :: "string \<Rightarrow> string \<Rightarrow> string \<Rightarrow> node" where
  "event_row time message location =
     Tag None [''a-row'', ''a-spacing-large'']
       [text_tag ''tracking-event-time'' time,
        text_tag ''tracking-event-message'' message,
        text_tag ''tracking-event-location'' location]"

text \<open>A page with two containers under \<^verbatim>\<open>#tracking-events-container\<close>: the carrier
  header, which has a row of its own, and an ordinary container with two rows.\<close>

definition fixture_page :: node where
  "fixture_page =
     Tag None []
       [Tag None [''carrierRelatedInfo-trackingId-text''] [NavigableString ''Tracking ID: TBA123''],
        Tag (Some ''tracking-events-container'') []
          [Tag None [''a-box'']
             [Tag None [''a-row'', ''tracking-event-carrier-header'']
                [event_row ''8:00 AM'' ''Shipped with Amazon'' [] ],
              Tag None [''a-row'']
                [text_tag ''tracking-event-date'' ''Monday, June 10'',
                 event_row ''3:15 PM'' ''Delivered'' ''Detroit, MI US'',
                 event_row ''9:02 AM'' ''Out for delivery'' ''Detroit, MI US'']]]]"

text \<open>An environment for the failure paths of \<^verbatim>\<open>track\<close>: every request is answered by
  the given response. The parser and the attributes of \<^verbatim>\<open>TrackingInfo\<close> are placeholders
  that these paths never reach.\<close>

definition fixture_env :: "response \<Rightarrow> env" where
  "fixture_env r =
     \<lparr>requests_get = (\<lambda>tracking_url. Inr r),
      BeautifulSoup = (\<lambda>body. Tag None [] []),
      now_year = 2024,
      info_status = (\<lambda>info. Inl IndexError),
      info_last_update = (\<lambda>info. Inl IndexError)\<rparr>"

section \<open>Properties\<close>

subsection \<open>Splitting\<close>

lemma split_str_nonempty: "split_str sep s \<noteq> []"
  by (induction s) (auto split: list.splits)

lemma parse_tracking_number_cases:
  "parse_tracking_number s =
     (case split_str CHR '':'' s of
        [] \<Rightarrow> Map.empty
      | [a] \<Rightarrow> [''order_id'' \<mapsto> PyStr a, ''item_id'' \<mapsto> PyInt 0, ''package_idx'' \<mapsto> PyInt 0]
      | [a, b] \<Rightarrow> [''order_id'' \<mapsto> PyStr a, ''item_id'' \<mapsto> PyStr b, ''package_idx'' \<mapsto> PyInt 0]
      | a # b # c # rest \<Rightarrow>
          [''order_id'' \<mapsto> PyStr a, ''item_id'' \<mapsto> PyStr b, ''package_idx'' \<mapsto> PyStr c])"
proof -
  obtain a rest where s: "split_str CHR '':'' s = a # rest"
    using split_str_nonempty by (cases "split_str CHR '':'' s") auto
  show ?thesis
    unfolding parse_tracking_number_def Let_def url_template_keys_def s
    by (cases rest; cases "tl rest"; auto)
qed

lemma split_str_no_sep: "seg \<in> set (split_str sep s) \<Longrightarrow> sep \<notin> set seg"
  by (induction s arbitrary: seg) (auto split: if_splits list.splits)

lemma split_str_length: "length (split_str sep s) = Suc (count_list s sep)"
  by (induction s) (auto split: list.splits simp: split_str_nonempty)

lemma url_total: "\<exists>u. url s = Inr u"
  using split_str_nonempty[of "CHR '':''" s]
  by (auto simp: url_def parse_tracking_number_cases Let_def split: list.splits)

text \<open>
  C7. Parsing a tracking number splits it on the colon and maps the segments by position
  to \<open>order_id\<close>, \<open>item_id\<close>, \<open>package_idx\<close>; a missing trailing segment is the integer
  \<open>0\<close>. The two examples of the specification are instances.
\<close>

theorem parse_tracking_number_positional:
  "parse_tracking_number ''111-2222222-3333333'' =
     [''order_id'' \<mapsto> PyStr ''111-2222222-3333333'', ''item_id'' \<mapsto> PyInt 0,
      ''package_idx'' \<mapsto> PyInt 0]
   \<and> parse_tracking_number ''111-2222222-3333333:ABC:5'' =
     [''order_id'' \<mapsto> PyStr ''111-2222222-3333333'', ''item_id'' \<mapsto> PyStr ''ABC'',
      ''package_idx'' \<mapsto> PyStr ''5'']
   \<and> parse_tracking_number s =
     (let parts = split_str CHR '':'' s
      in [''order_id'' \<mapsto> segment_or_zero parts 0, ''item_id'' \<mapsto> segment_or_zero parts 1,
          ''package_idx'' \<mapsto> segment_or_zero parts 2])"
proof (intro conjI)
  show "parse_tracking_number ''111-2222222-3333333'' =
     [''order_id'' \<mapsto> PyStr ''111-2222222-3333333'', ''item_id'' \<mapsto> PyInt 0,
      ''package_idx'' \<mapsto> PyInt 0]"
    by (simp add: parse_tracking_number_cases)
  show "parse_tracking_number ''111-2222222-3333333:ABC:5'' =
     [''order_id'' \<mapsto> PyStr ''111-2222222-3333333'', ''item_id'' \<mapsto> PyStr ''ABC'',
      ''package_idx'' \<mapsto> PyStr ''5'']"
    by (simp add: parse_tracking_number_cases)
  show "parse_tracking_number s =
     (let parts = split_str CHR '':'' s
      in [''order_id'' \<mapsto> segment_or_zero parts 0, ''item_id'' \<mapsto> segment_or_zero parts 1,
          ''package_idx'' \<mapsto> segment_or_zero parts 2])"
    using split_str_nonempty[of "CHR '':''" s]
    by (auto simp: parse_tracking_number_cases segment_or_zero_def Let_def split: list.splits)
qed

text \<open>
  C10. For every input the query has exactly the keys \<open>order_id\<close>, \<open>item_id\<close> and
  \<open>package_idx\<close>; when the string has more than three segments, the query holds the first
  three and what follows them is dropped. The function has no error result.
\<close>

theorem parse_tracking_number_three_keys:
  "dom (parse_tracking_number s) = {''order_id'', ''item_id'', ''package_idx''}
   \<and> (split_str CHR '':'' s = a # b # c # rest \<longrightarrow>
        parse_tracking_number s =
          [''order_id'' \<mapsto> PyStr a, ''item_id'' \<mapsto> PyStr b, ''package_idx'' \<mapsto> PyStr c])"
proof (intro conjI impI)
  show "dom (parse_tracking_number s) = {''order_id'', ''item_id'', ''package_idx''}"
    using split_str_nonempty[of "CHR '':''" s]
    by (auto simp: parse_tracking_number_cases split: list.splits if_splits)
next
  assume "split_str CHR '':'' s = a # b # c # rest"
  then show "parse_tracking_number s =
      [''order_id'' \<mapsto> PyStr a, ''item_id'' \<mapsto> PyStr b, ''package_idx'' \<mapsto> PyStr c]"
    by (simp add: parse_tracking_number_cases)
qed

theorem parse_tracking_number_three_keys_witness:
  "split_str CHR '':'' ''111-2222222-3333333:ABC:5:x:y'' =
     ''111-2222222-3333333'' # ''ABC'' # ''5'' # [''x'', ''y'']
   \<and> dom (parse_tracking_number ''111-2222222-3333333:ABC:5:x:y'') =
       {''order_id'', ''item_id'', ''package_idx''}
   \<and> parse_tracking_number ''111-2222222-3333333:ABC:5:x:y'' =
       [''order_id'' \<mapsto> PyStr ''111-2222222-3333333'', ''item_id'' \<mapsto> PyStr ''ABC'',
        ''package_idx'' \<mapsto> PyStr ''5'']"
proof -
  have h: "split_str CHR '':'' ''111-2222222-3333333:ABC:5:x:y'' =
     ''111-2222222-3333333'' # ''ABC'' # ''5'' # [''x'', ''y'']"
    by simp
  show ?thesis
    using h parse_tracking_number_three_keys
      [of "''111-2222222-3333333:ABC:5:x:y''" "''111-2222222-3333333''" "''ABC''" "''5''"
          "[''x'', ''y'']"]
    by blast
qed

subsection \<open>The matcher against the language of the pattern\<close>

lemma plus_match_set:
  "set (plus_match k s) = {q. \<exists>p. s = p @ q \<and> p \<noteq> [] \<and> list_all (in_class k) p}"
proof (induction s)
  case Nil
  then show ?case by simp
next
  case (Cons c cs)
  show ?case
  proof (cases "in_class k c")
    case False
    then show ?thesis by (auto simp: Cons_eq_append_conv neq_Nil_conv)
  next
    case True
    have "{q. \<exists>p. c # cs = p @ q \<and> p \<noteq> [] \<and> list_all (in_class k) p}
        = insert cs {q. \<exists>p. cs = p @ q \<and> p \<noteq> [] \<and> list_all (in_class k) p}"
      (is "?L = ?R")
    proof (intro set_eqI iffI)
      fix q assume "q \<in> ?L"
      then obtain p where p: "c # cs = p @ q" "p \<noteq> []" "list_all (in_class k) p"
        by blast
      then obtain p' where p': "p = c # p'" "cs = p' @ q"
        by (cases p) auto
      show "q \<in> ?R"
      proof (cases "p' = []")
        case True
        with p' show ?thesis by simp
      next
        case False
        with p p' show ?thesis by auto
      qed
    next
      fix q assume "q \<in> ?R"
      then consider "q = cs" | p where "cs = p @ q" "p \<noteq> []" "list_all (in_class k) p"
        by blast
      then show "q \<in> ?L"
      proof cases
        case 1
        with True have "c # cs = [c] @ q \<and> [c] \<noteq> [] \<and> list_all (in_class k) [c]"
          by simp
        then show ?thesis by blast
      next
        case 2
        with True
        have "c # cs = (c # p) @ q \<and> c # p \<noteq> [] \<and> list_all (in_class k) (c # p)"
          by simp
        then show ?thesis by blast
      qed
    qed
    with True Cons show ?thesis by simp
  qed
qed

lemma rep_match_set:
  assumes "\<And>s. set (m s) = {q. \<exists>p. s = p @ q \<and> p \<in> L}"
  shows "set (rep_match n m s) = {q. \<exists>p. s = p @ q \<and> p \<in> lang_pow n L}"
proof (induction n arbitrary: s)
  case 0
  then show ?case by simp
next
  case (Suc n)
  show ?case
  proof (intro set_eqI iffI)
    fix q assume "q \<in> set (rep_match (Suc n) m s)"
    then obtain t where t: "t \<in> set (m s)" "q \<in> set (rep_match n m t)"
      by auto
    from t(1) assms obtain u where u: "s = u @ t" "u \<in> L"
      by auto
    from t(2) Suc obtain v where v: "t = v @ q" "v \<in> lang_pow n L"
      by auto
    from u v have "s = (u @ v) @ q \<and> u @ v \<in> lang_pow (Suc n) L"
      by auto
    then show "q \<in> {q. \<exists>p. s = p @ q \<and> p \<in> lang_pow (Suc n) L}"
      by blast
  next
    fix q assume "q \<in> {q. \<exists>p. s = p @ q \<and> p \<in> lang_pow (Suc n) L}"
    then obtain u v where uv: "s = (u @ v) @ q" "u \<in> L" "v \<in> lang_pow n L"
      by auto
    then have "v @ q \<in> set (m s)"
      using assms by auto
    moreover have "q \<in> set (rep_match n m (v @ q))"
      using Suc uv(3) by auto
    ultimately show "q \<in> set (rep_match (Suc n) m s)"
      by auto
  qed
qed

text \<open>The matcher is sound and complete: what it leaves over are exactly the rests of
  the string after a prefix in the language of the pattern.\<close>

lemma rmatch_lang: "set (rmatch r s) = {q. \<exists>p. s = p @ q \<and> p \<in> lang r}"
proof (induction r arbitrary: s)
  case (Atom k)
  then show ?case by (cases s) auto
next
  case Eps
  then show ?case by simp
next
  case (Seq r1 r2)
  show ?case
  proof (intro set_eqI iffI)
    fix q assume "q \<in> set (rmatch (Seq r1 r2) s)"
    then obtain t where t: "t \<in> set (rmatch r1 s)" "q \<in> set (rmatch r2 t)"
      by auto
    from t(1) Seq(1) obtain u where u: "s = u @ t" "u \<in> lang r1"
      by auto
    from t(2) Seq(2) obtain v where v: "t = v @ q" "v \<in> lang r2"
      by auto
    from u v have "s = (u @ v) @ q \<and> u @ v \<in> lang (Seq r1 r2)"
      by auto
    then show "q \<in> {q. \<exists>p. s = p @ q \<and> p \<in> lang (Seq r1 r2)}"
      by blast
  next
    fix q assume "q \<in> {q. \<exists>p. s = p @ q \<and> p \<in> lang (Seq r1 r2)}"
    then obtain u v where uv: "s = (u @ v) @ q" "u \<in> lang r1" "v \<in> lang r2"
      by auto
    then have "v @ q \<in> set (rmatch r1 s)"
      using Seq(1) by auto
    moreover have "q \<in> set (rmatch r2 (v @ q))"
      using Seq(2) uv(3) by auto
    ultimately show "q \<in> set (rmatch (Seq r1 r2) s)"
      by auto
  qed
next
  case (Alt r1 r2)
  then show ?case by auto
next
  case (Opt r)
  then show ?case by auto
next
  case (Rep n r)
  show ?case
    using rep_match_set[of "rmatch r" "lang r" n s] Rep by simp
next
  case (Plus k)
  show ?case
    using plus_match_set[of k s] by simp
qed

lemma fullmatch_lang: "s \<in> lang r \<longleftrightarrow> [] \<in> set (rmatch r s)"
  by (simp add: rmatch_lang)

text \<open>
  C3, as amended. \<open>identify\<close> is true exactly for the strings that start with a match of
  the pattern \<^verbatim>\<open>\d{3}-\d{7}-\d{7}(:\w+)?\<close>: the match is anchored at the start of the
  string only, and what follows it is not looked at.
\<close>

theorem identify_iff_prefix_matches:
  "identify s \<longleftrightarrow> (\<exists>p q. s = p @ q \<and> p \<in> lang TN_REGEX)"
proof -
  have "identify s \<longleftrightarrow> set (rmatch TN_REGEX s) \<noteq> {}"
    by (simp add: identify_def)
  also have "\<dots> \<longleftrightarrow> (\<exists>q p. s = p @ q \<and> p \<in> lang TN_REGEX)"
    unfolding rmatch_lang by blast
  finally show ?thesis
    by blast
qed

text \<open>C3 as stated fails: a tracking number followed by other characters does not match
  the pattern as a whole, and \<open>identify\<close> accepts it.\<close>

theorem identify_trailing_text_counterexample:
  "identify ''111-2222222-3333333xyz'' \<and> ''111-2222222-3333333xyz'' \<notin> lang TN_REGEX"
proof
  show "identify ''111-2222222-3333333xyz''"
    by code_simp
  have "[] \<notin> set (rmatch TN_REGEX ''111-2222222-3333333xyz'')"
    by code_simp
  then show "''111-2222222-3333333xyz'' \<notin> lang TN_REGEX"
    by (simp only: fullmatch_lang not_False_eq_True)
qed

subsection \<open>Timestamps\<close>

lemma parse_timestamp_unparseable:
  assumes "strptime (timestamp @ '' '' @ year) ''%I:%M %p %A, %B %d %Y'' = None"
    and "strptime (timestamp @ '' '' @ year) ''%A, %B %d %Y'' = None"
  shows "parse_timestamp this_year timestamp (Some year) = Inl TypeError"
  using assms by (simp add: parse_timestamp_def datetime_no_arguments_def)

lemma rmatch_suffix: "q \<in> set (rmatch r s) \<Longrightarrow> \<exists>p. s = p @ q \<and> p \<in> lang r"
  using rmatch_lang[of r s] by auto

text \<open>A match of the pieces binds the groups of the pattern, each once and in order.\<close>

lemma match_pieces_names:
  "(gs, left) \<in> set (match_pieces ps s) \<Longrightarrow> map fst gs = List.map_filter fst ps"
proof (induction ps arbitrary: s gs)
  case Nil
  then show ?case by (simp add: map_filter_simps)
next
  case (Cons piece ps)
  obtain g r where piece: "piece = (g, r)"
    by (cases piece)
  from Cons.prems obtain rest gs' where
    rest: "(gs', left) \<in> set (match_pieces ps rest)"
    and gs: "gs = (case g of None \<Rightarrow> gs' | Some d \<Rightarrow> (d, take (length s - length rest) s) # gs')"
    unfolding piece by auto
  from Cons.IH[OF rest] have "map fst gs' = List.map_filter fst ps" .
  then show ?case
    unfolding piece gs by (cases g) (simp_all add: map_filter_simps)
qed

text \<open>The text of the last group of a pattern lies directly before what the match
  leaves over.\<close>

lemma match_pieces_last:
  "(gs, left) \<in> set (match_pieces (front @ [(Some d, r)]) s) \<Longrightarrow>
   \<exists>gs' v pre. gs = gs' @ [(d, v)] \<and> s = pre @ v @ left \<and> v \<in> lang r"
proof (induction front arbitrary: s gs)
  case Nil
  then have left: "left \<in> set (rmatch r s)"
    and gs: "gs = [(d, take (length s - length left) s)]"
    by auto
  from rmatch_suffix[OF left] obtain p where p: "s = p @ left" "p \<in> lang r"
    by blast
  then have "take (length s - length left) s = p"
    by simp
  with gs p have "gs = [] @ [(d, p)] \<and> s = [] @ p @ left \<and> p \<in> lang r"
    by simp
  then show ?case
    by blast
next
  case (Cons piece front)
  obtain g' r' where piece: "piece = (g', r')"
    by (cases piece)
  from Cons.prems obtain rest gs1 where
    rest: "rest \<in> set (rmatch r' s)"
    and sub: "(gs1, left) \<in> set (match_pieces (front @ [(Some d, r)]) rest)"
    and gs: "gs = (case g' of None \<Rightarrow> gs1
                   | Some d' \<Rightarrow> (d', take (length s - length rest) s) # gs1)"
    unfolding piece by auto
  from Cons.IH[OF sub] obtain gs' v pre where
    ih: "gs1 = gs' @ [(d, v)]" "rest = pre @ v @ left" "v \<in> lang r"
    by blast
  from rmatch_suffix[OF rest] obtain p where p: "s = p @ rest"
    by blast
  have s: "s = (p @ pre) @ v @ left"
    using p ih(2) by simp
  show ?case
  proof (cases g')
    case None
    with gs ih(1) have "gs = gs' @ [(d, v)]"
      by simp
    with s ih(3) show ?thesis
      by blast
  next
    case (Some d')
    with gs ih(1) have "gs = ((d', take (length s - length rest) s) # gs') @ [(d, v)]"
      by simp
    with s ih(3) show ?thesis
      by blast
  qed
qed

lemma lang_pow_length: "v \<in> lang_pow n {[c] | c. P c} \<Longrightarrow> length v = n"
  by (induction n arbitrary: v) auto

lemma strptime_found:
  assumes "strptime s format = Some t" and "pattern format = Some ps"
  shows "\<exists>gs. (gs, []) \<in> set (match_pieces ps s)
           \<and> dt_year t = group_or gs CHR ''Y'' 1900 py_int
           \<and> dt_hour t = group_or gs CHR ''I'' 0 (\<lambda>v. hour_of v (group_or gs CHR ''p'' [] id))
           \<and> dt_minute t = group_or gs CHR ''M'' 0 py_int"
proof (cases "match_pieces ps s")
  case Nil
  with assms show ?thesis
    by (simp add: strptime_def)
next
  case (Cons found rest)
  obtain gs left where found: "found = (gs, left)"
    by (cases found)
  from assms Cons found have left: "left = []"
    by (auto simp: strptime_def split: if_splits)
  have mem: "(gs, []) \<in> set (match_pieces ps s)"
    using Cons found left by simp
  from assms Cons found left have
    "dt_year t = group_or gs CHR ''Y'' 1900 py_int
     \<and> dt_hour t = group_or gs CHR ''I'' 0 (\<lambda>v. hour_of v (group_or gs CHR ''p'' [] id))
     \<and> dt_minute t = group_or gs CHR ''M'' 0 py_int"
    by (auto simp: strptime_def Let_def split: if_splits)
  with mem show ?thesis
    by blast
qed

text \<open>When the pattern of the format ends with the group of \<^verbatim>\<open>%Y\<close>, the year of the
  result is the number that the last four characters of the string spell.\<close>

lemma strptime_year:
  assumes "strptime s format = Some t"
    and "pattern format = Some (front @ [(Some CHR ''Y'', Rep 4 (Atom Digit))])"
    and "CHR ''Y'' \<notin> set (List.map_filter fst front)"
  shows "\<exists>pre v. s = pre @ v \<and> length v = 4 \<and> dt_year t = py_int v"
proof -
  from strptime_found[OF assms(1,2)] obtain gs where
    mem: "(gs, []) \<in> set (match_pieces (front @ [(Some CHR ''Y'', Rep 4 (Atom Digit))]) s)"
    and year: "dt_year t = group_or gs CHR ''Y'' 1900 py_int"
    by blast
  from match_pieces_last[OF mem] obtain gs' v pre where
    last: "gs = gs' @ [(CHR ''Y'', v)]" "s = pre @ v" "v \<in> lang (Rep 4 (Atom Digit))"
    by auto
  have len: "length v = 4"
    using last(3) lang_pow_length[of v 4 "in_class Digit"] by simp
  from match_pieces_names[OF mem] last(1)
  have "map fst gs' = List.map_filter fst front"
    by (simp add: map_filter_def)
  with assms(3) have "CHR ''Y'' \<notin> fst ` set gs'"
    by (metis list.set_map)
  then have "map_of gs' CHR ''Y'' = None"
    by (simp add: map_of_eq_None_iff)
  then have "map_of gs CHR ''Y'' = Some v"
    unfolding last(1) by (simp add: map_add_def)
  with year have "dt_year t = py_int v"
    by (simp add: group_or_def)
  with last(2) len show ?thesis
    by blast
qed

text \<open>When the pattern of the format has no group for the hour and none for the minute,
  the result is at midnight.\<close>

lemma strptime_no_time:
  assumes "strptime s format = Some t"
    and "pattern format = Some ps"
    and "CHR ''I'' \<notin> set (List.map_filter fst ps)"
    and "CHR ''M'' \<notin> set (List.map_filter fst ps)"
  shows "dt_hour t = 0 \<and> dt_minute t = 0"
proof -
  from strptime_found[OF assms(1,2)] obtain gs where
    mem: "(gs, []) \<in> set (match_pieces ps s)"
    and hour: "dt_hour t = group_or gs CHR ''I'' 0 (\<lambda>v. hour_of v (group_or gs CHR ''p'' [] id))"
    and minute: "dt_minute t = group_or gs CHR ''M'' 0 py_int"
    by blast
  from match_pieces_names[OF mem] have names: "map fst gs = List.map_filter fst ps" .
  from assms(3) names have "CHR ''I'' \<notin> fst ` set gs"
    by (metis list.set_map)
  then have i: "map_of gs CHR ''I'' = None"
    by (simp add: map_of_eq_None_iff)
  from assms(4) names have "CHR ''M'' \<notin> fst ` set gs"
    by (metis list.set_map)
  then have m: "map_of gs CHR ''M'' = None"
    by (simp add: map_of_eq_None_iff)
  from hour minute i m show ?thesis
    by (simp add: group_or_def)
qed

lemma time_date_pattern:
  "pattern ''%I:%M %p %A, %B %d %Y'' =
     Some (butlast (the (pattern ''%I:%M %p %A, %B %d %Y''))
             @ [(Some CHR ''Y'', Rep 4 (Atom Digit))])
   \<and> CHR ''Y'' \<notin> set (List.map_filter fst (butlast (the (pattern ''%I:%M %p %A, %B %d %Y''))))"
  by code_simp

lemma date_pattern:
  "pattern ''%A, %B %d %Y'' =
     Some (butlast (the (pattern ''%A, %B %d %Y'')) @ [(Some CHR ''Y'', Rep 4 (Atom Digit))])
   \<and> CHR ''Y'' \<notin> set (List.map_filter fst (butlast (the (pattern ''%A, %B %d %Y''))))
   \<and> CHR ''I'' \<notin> set (List.map_filter fst (the (pattern ''%A, %B %d %Y'')))
   \<and> CHR ''M'' \<notin> set (List.map_filter fst (the (pattern ''%A, %B %d %Y'')))
   \<and> pattern ''%A, %B %d %Y'' = Some (the (pattern ''%A, %B %d %Y''))"
  by code_simp

lemma parse_timestamp_year:
  assumes "parse_timestamp this_year ts (Some y) = Inr t" and "length y = 4"
  shows "dt_year t = py_int y"
proof -
  let ?s = "ts @ '' '' @ y"
  have "strptime ?s ''%I:%M %p %A, %B %d %Y'' = Some t
        \<or> strptime ?s ''%A, %B %d %Y'' = Some t"
    using assms(1)
    by (auto simp: parse_timestamp_def datetime_no_arguments_def Let_def split: option.splits)
  then obtain pre v where v: "?s = pre @ v" "length v = 4" "dt_year t = py_int v"
    using strptime_year[of ?s "''%I:%M %p %A, %B %d %Y''" t] time_date_pattern
          strptime_year[of ?s "''%A, %B %d %Y''" t] date_pattern
    by blast
  have "(ts @ '' '') @ y = pre @ v"
    using v(1) by simp
  with assms(2) v(2) have "y = v"
    by (metis append_eq_append_conv)
  with v(3) show ?thesis
    by simp
qed

lemma parse_timestamp_date_only:
  assumes "strptime (ts @ '' '' @ y) ''%I:%M %p %A, %B %d %Y'' = None"
    and "parse_timestamp this_year ts (Some y) = Inr t"
  shows "dt_hour t = 0 \<and> dt_minute t = 0"
proof -
  have "strptime (ts @ '' '' @ y) ''%A, %B %d %Y'' = Some t"
    using assms
    by (auto simp: parse_timestamp_def datetime_no_arguments_def Let_def split: option.splits)
  then show ?thesis
    using strptime_no_time[of "ts @ '' '' @ y" "''%A, %B %d %Y''" t
                              "the (pattern ''%A, %B %d %Y'')"] date_pattern
    by blast
qed

text \<open>
  C9. The resolver appends the year to the text (the given one, or the current year) and
  tries the format with the 12-hour time first, then the format with the date only;
  what it returns is the result of the first format that parses. The year of the result
  is the year that was appended, and a result of the second format is at 00:00, the
  value of a \<^verbatim>\<open>datetime\<close> parsed without a time of day. \<^verbatim>\<open>3:15 PM Monday, June 10\<close> with
  the year 2024 is June 10, 2024 at 15:15, and \<^verbatim>\<open>Monday, June 10\<close> is June 10, 2024 at
  00:00.
\<close>

theorem parse_timestamp_two_formats:
  "parse_timestamp this_year ts (Some y) =
     (case strptime (ts @ '' '' @ y) ''%I:%M %p %A, %B %d %Y'' of
        Some t' \<Rightarrow> Inr t'
      | None \<Rightarrow>
          (case strptime (ts @ '' '' @ y) ''%A, %B %d %Y'' of
             Some t' \<Rightarrow> Inr t'
           | None \<Rightarrow> Inl TypeError))
   \<and> parse_timestamp this_year ts None =
       parse_timestamp this_year ts (Some (str_of_nat this_year))
   \<and> (parse_timestamp this_year ts (Some y) = Inr t \<and> length y = 4 \<longrightarrow> dt_year t = py_int y)
   \<and> (strptime (ts @ '' '' @ y) ''%I:%M %p %A, %B %d %Y'' = None
        \<and> parse_timestamp this_year ts (Some y) = Inr t \<longrightarrow>
        dt_hour t = 0 \<and> dt_minute t = 0)
   \<and> parse_timestamp this_year ''3:15 PM Monday, June 10'' (Some ''2024'') =
     Inr \<lparr>dt_year = 2024, dt_month = 6, dt_day = 10, dt_hour = 15, dt_minute = 15\<rparr>
   \<and> parse_timestamp this_year ''Monday, June 10'' (Some ''2024'') =
     Inr \<lparr>dt_year = 2024, dt_month = 6, dt_day = 10, dt_hour = 0, dt_minute = 0\<rparr>
   \<and> strptime ''3:15 PM Monday, June 10 2024'' ''%I:%M %p %A, %B %d %Y'' =
     Some \<lparr>dt_year = 2024, dt_month = 6, dt_day = 10, dt_hour = 15, dt_minute = 15\<rparr>
   \<and> strptime ''Monday, June 10 2024'' ''%I:%M %p %A, %B %d %Y'' = None
   \<and> strptime ''Monday, June 10 2024'' ''%A, %B %d %Y'' =
     Some \<lparr>dt_year = 2024, dt_month = 6, dt_day = 10, dt_hour = 0, dt_minute = 0\<rparr>"
proof -
  have order: "parse_timestamp this_year ts (Some y) =
     (case strptime (ts @ '' '' @ y) ''%I:%M %p %A, %B %d %Y'' of
        Some t' \<Rightarrow> Inr t'
      | None \<Rightarrow>
          (case strptime (ts @ '' '' @ y) ''%A, %B %d %Y'' of
             Some t' \<Rightarrow> Inr t'
           | None \<Rightarrow> Inl TypeError))"
    by (simp add: parse_timestamp_def datetime_no_arguments_def Let_def split: option.splits)
  have current: "parse_timestamp this_year ts None =
       parse_timestamp this_year ts (Some (str_of_nat this_year))"
    by (simp add: parse_timestamp_def)
  have year: "parse_timestamp this_year ts (Some y) = Inr t \<and> length y = 4 \<longrightarrow>
      dt_year t = py_int y"
    using parse_timestamp_year by blast
  have midnight: "strptime (ts @ '' '' @ y) ''%I:%M %p %A, %B %d %Y'' = None
        \<and> parse_timestamp this_year ts (Some y) = Inr t \<longrightarrow>
        dt_hour t = 0 \<and> dt_minute t = 0"
    using parse_timestamp_date_only by blast
  have f1: "strptime ''3:15 PM Monday, June 10 2024'' ''%I:%M %p %A, %B %d %Y'' =
     Some \<lparr>dt_year = 2024, dt_month = 6, dt_day = 10, dt_hour = 15, dt_minute = 15\<rparr>"
    by code_simp
  have f2: "strptime ''Monday, June 10 2024'' ''%I:%M %p %A, %B %d %Y'' = None"
    by code_simp
  have f3: "strptime ''Monday, June 10 2024'' ''%A, %B %d %Y'' =
     Some \<lparr>dt_year = 2024, dt_month = 6, dt_day = 10, dt_hour = 0, dt_minute = 0\<rparr>"
    by code_simp
  have e1: "parse_timestamp this_year ''3:15 PM Monday, June 10'' (Some ''2024'') =
     Inr \<lparr>dt_year = 2024, dt_month = 6, dt_day = 10, dt_hour = 15, dt_minute = 15\<rparr>"
    using f1 by (simp add: parse_timestamp_def)
  have e2: "parse_timestamp this_year ''Monday, June 10'' (Some ''2024'') =
     Inr \<lparr>dt_year = 2024, dt_month = 6, dt_day = 10, dt_hour = 0, dt_minute = 0\<rparr>"
    using f2 f3 by (simp add: parse_timestamp_def)
  from order current year midnight e1 e2 f1 f2 f3 show ?thesis
    by (intro conjI)
qed

theorem parse_timestamp_two_formats_witness:
  "parse_timestamp 2024 ''3:15 PM Monday, June 10'' (Some ''2024'') =
     Inr \<lparr>dt_year = 2024, dt_month = 6, dt_day = 10, dt_hour = 15, dt_minute = 15\<rparr>
   \<and> length ''2024'' = 4
   \<and> dt_year \<lparr>dt_year = 2024, dt_month = 6, dt_day = 10, dt_hour = 15, dt_minute = 15\<rparr> =
       py_int ''2024''
   \<and> strptime (''Monday, June 10'' @ '' '' @ ''2024'') ''%I:%M %p %A, %B %d %Y'' = None
   \<and> parse_timestamp 2024 ''Monday, June 10'' (Some ''2024'') =
     Inr \<lparr>dt_year = 2024, dt_month = 6, dt_day = 10, dt_hour = 0, dt_minute = 0\<rparr>
   \<and> dt_hour \<lparr>dt_year = 2024, dt_month = 6, dt_day = 10, dt_hour = 0, dt_minute = 0\<rparr> = 0
   \<and> dt_minute \<lparr>dt_year = 2024, dt_month = 6, dt_day = 10, dt_hour = 0, dt_minute = 0\<rparr> = 0"
proof -
  let ?t1 = "\<lparr>dt_year = 2024, dt_month = 6, dt_day = 10, dt_hour = 15, dt_minute = 15\<rparr>"
  let ?t2 = "\<lparr>dt_year = 2024, dt_month = 6, dt_day = 10, dt_hour = 0, dt_minute = 0\<rparr>"
  note with_time =
    parse_timestamp_two_formats [of 2024 "''3:15 PM Monday, June 10''" "''2024''" ?t1]
  note date_only =
    parse_timestamp_two_formats [of 2024 "''Monday, June 10''" "''2024''" ?t2]
  have h1: "parse_timestamp 2024 ''3:15 PM Monday, June 10'' (Some ''2024'') = Inr ?t1"
    using with_time by blast
  have h2: "length ''2024'' = 4"
    by simp
  have c1: "dt_year ?t1 = py_int ''2024''"
    using with_time h1 h2 by blast
  have h3: "strptime (''Monday, June 10'' @ '' '' @ ''2024'') ''%I:%M %p %A, %B %d %Y'' = None"
    using date_only by simp
  have h4: "parse_timestamp 2024 ''Monday, June 10'' (Some ''2024'') = Inr ?t2"
    using date_only by blast
  have c2: "dt_hour ?t2 = 0 \<and> dt_minute ?t2 = 0"
    using date_only h3 h4 by blast
  from h1 h2 c1 h3 h4 c2 show ?thesis
    by blast
qed

text \<open>
  C2. When neither format parses, the resolver's fallback \<^verbatim>\<open>datetime.datetime()\<close> raises
  \<^verbatim>\<open>TypeError\<close>: the call does not return a value. The text of a row without time and
  date (the empty string) and a text that is no date are two such inputs.
\<close>

theorem parse_timestamp_fallback_raises:
  "parse_timestamp this_year '''' (Some ''2024'') = Inl TypeError
   \<and> parse_timestamp this_year ''Out for delivery'' (Some ''2024'') = Inl TypeError"
proof -
  have "strptime '' 2024'' ''%I:%M %p %A, %B %d %Y'' = None"
    by code_simp
  moreover have "strptime '' 2024'' ''%A, %B %d %Y'' = None"
    by code_simp
  moreover have "strptime ''Out for delivery 2024'' ''%I:%M %p %A, %B %d %Y'' = None"
    by code_simp
  moreover have "strptime ''Out for delivery 2024'' ''%A, %B %d %Y'' = None"
    by code_simp
  ultimately show ?thesis
    by (simp add: parse_timestamp_def datetime_no_arguments_def)
qed


subsection \<open>Event extraction\<close>

lemma not_ignored_iff:
  "not_ignored tag \<longleftrightarrow> set (attrs_class tag) \<inter> set IGNORE_TAG_CLASSES = {}"
  by (auto simp: not_ignored_def list_all_iff)

lemma nested_filter_rows:
  "concat (map (\<lambda>c. map (\<lambda>t. (c, t)) (filter Q (f c))) (filter P cs)) =
   filter (\<lambda>(c, t). P c \<and> Q t) (concat (map (\<lambda>c. map (\<lambda>t. (c, t)) (f c)) cs))"
proof (induction cs)
  case Nil
  then show ?case by simp
next
  case (Cons c cs)
  have row: "filter (\<lambda>(c, t). P c \<and> Q t) (map (\<lambda>t. (c, t)) (f c)) =
      (if P c then map (\<lambda>t. (c, t)) (filter Q (f c)) else [])"
    by (induction "f c") (auto simp: filter_map comp_def)
  show ?case
    using Cons by (simp add: row)
qed

lemma collect_Inr: "collect f xs = Inr ys \<Longrightarrow> map Inr ys = map f xs"
  by (induction xs arbitrary: ys) (auto split: sum.splits)

lemma collect_Inl: "collect f xs = Inl e \<Longrightarrow> \<exists>x \<in> set xs. f x = Inl e"
  by (induction xs) (auto split: sum.splits)

lemma subseq_concat_map:
  assumes "\<And>x. x \<in> set xs \<Longrightarrow> subseq (f x) (g x)"
  shows "subseq (concat (map f xs)) (concat (map g xs))"
  using assms
proof (induction xs)
  case Nil
  then show ?case by simp
next
  case (Cons x xs)
  then have "subseq (f x) (g x)" and "subseq (concat (map f xs)) (concat (map g xs))"
    by simp_all
  then show ?case
    by (simp add: list_emb_append_mono)
qed

text \<open>The containers are selected in document order: the selection is a subsequence
  of the node followed by everything below it.\<close>

lemma select_a_row_subseq: "subseq (select_a_row gp p n) (n # descendants n)"
proof (induction n arbitrary: gp p)
  case (NavigableString s)
  then show ?case by simp
next
  case (Tag i cs children)
  let ?below = "concat (map (select_a_row p (i = Some ''tracking-events-container'')) children)"
  have "subseq ?below (concat (map (\<lambda>c. c # descendants c) children))"
    by (rule subseq_concat_map) (rule Tag)
  then have below: "subseq ?below (descendants (Tag i cs children))"
    by simp
  show ?case
  proof (cases "gp \<and> ''a-row'' \<in> set cs")
    case True
    then have "select_a_row gp p (Tag i cs children) = Tag i cs children # ?below"
      by simp
    with below show ?thesis
      by simp
  next
    case False
    then have "select_a_row gp p (Tag i cs children) = ?below"
      by auto
    moreover have "subseq ?below (Tag i cs children # descendants (Tag i cs children))"
      using below by (rule list_emb_Cons)
    ultimately show ?thesis
      by (simp only:)
  qed
qed

lemma select_a_spacing_large_subseq:
  "subseq (select_a_spacing_large container_tag) (descendants container_tag)"
  by (simp add: select_a_spacing_large_def)

text \<open>The text of an element is stripped of the whitespace of \<^verbatim>\<open>unicode\<close>, the
  no-break space and the next-line character included.\<close>

lemma strip_unicode_whitespace:
  "strip ([CHR 0xA0] @ '' 3:15 PM'' @ [CHR 0x85, CHR 0x0A]) = ''3:15 PM''
   \<and> split_words (''Tracking ID:'' @ [CHR 0xA0] @ ''TBA123'') = [''Tracking'', ''ID:'', ''TBA123'']"
  by code_simp

text \<open>
  C8. The rows that produce events are the rows of the page in document order, without
  those whose container or whose own class list meets the denylist; the extraction
  builds the event of each of these rows in that order and stops at the first row whose
  timestamp raises; the events, when the extraction returns, are the events of these
  rows in the same order. On the fixture with the header container and an ordinary
  container of two rows, the result is the two events of the ordinary container, in
  document order.
\<close>

theorem extract_events_document_order:
  "event_rows soup =
     filter (\<lambda>(container_tag, tag).
               set (attrs_class container_tag) \<inter> set IGNORE_TAG_CLASSES = {} \<and>
               set (attrs_class tag) \<inter> set IGNORE_TAG_CLASSES = {})
            (all_rows soup)
   \<and> extract_events this_year soup =
       collect (make_event this_year)
         (filter (\<lambda>(container_tag, tag).
                    set (attrs_class container_tag) \<inter> set IGNORE_TAG_CLASSES = {} \<and>
                    set (attrs_class tag) \<inter> set IGNORE_TAG_CLASSES = {})
                 (all_rows soup))
   \<and> (extract_events this_year soup = Inr evs \<longrightarrow>
        map Inr evs = map (make_event this_year) (event_rows soup))
   \<and> extract_events 2024 fixture_page =
       Inr [\<lparr>ev_timestamp = \<lparr>dt_year = 2024, dt_month = 6, dt_day = 10,
                             dt_hour = 15, dt_minute = 15\<rparr>,
             ev_message = ''Delivered'', ev_location = ''Detroit, MI US''\<rparr>,
            \<lparr>ev_timestamp = \<lparr>dt_year = 2024, dt_month = 6, dt_day = 10,
                             dt_hour = 9, dt_minute = 2\<rparr>,
             ev_message = ''Out for delivery'', ev_location = ''Detroit, MI US''\<rparr>]"
proof (intro conjI impI)
  show rows: "event_rows soup =
     filter (\<lambda>(container_tag, tag).
               set (attrs_class container_tag) \<inter> set IGNORE_TAG_CLASSES = {} \<and>
               set (attrs_class tag) \<inter> set IGNORE_TAG_CLASSES = {})
            (all_rows soup)"
    unfolding event_rows_def all_rows_def nested_filter_rows
    by (simp add: not_ignored_iff)
  show "extract_events this_year soup =
       collect (make_event this_year)
         (filter (\<lambda>(container_tag, tag).
                    set (attrs_class container_tag) \<inter> set IGNORE_TAG_CLASSES = {} \<and>
                    set (attrs_class tag) \<inter> set IGNORE_TAG_CLASSES = {})
                 (all_rows soup))"
    unfolding extract_events_def rows ..
next
  assume "extract_events this_year soup = Inr evs"
  then show "map Inr evs = map (make_event this_year) (event_rows soup)"
    unfolding extract_events_def by (rule collect_Inr)
next
  show "extract_events 2024 fixture_page =
       Inr [\<lparr>ev_timestamp = \<lparr>dt_year = 2024, dt_month = 6, dt_day = 10,
                             dt_hour = 15, dt_minute = 15\<rparr>,
             ev_message = ''Delivered'', ev_location = ''Detroit, MI US''\<rparr>,
            \<lparr>ev_timestamp = \<lparr>dt_year = 2024, dt_month = 6, dt_day = 10,
                             dt_hour = 9, dt_minute = 2\<rparr>,
             ev_message = ''Out for delivery'', ev_location = ''Detroit, MI US''\<rparr>]"
    by code_simp
qed

theorem extract_events_document_order_witness:
  "extract_events 2024 fixture_page =
       Inr [\<lparr>ev_timestamp = \<lparr>dt_year = 2024, dt_month = 6, dt_day = 10,
                             dt_hour = 15, dt_minute = 15\<rparr>,
             ev_message = ''Delivered'', ev_location = ''Detroit, MI US''\<rparr>,
            \<lparr>ev_timestamp = \<lparr>dt_year = 2024, dt_month = 6, dt_day = 10,
                             dt_hour = 9, dt_minute = 2\<rparr>,
             ev_message = ''Out for delivery'', ev_location = ''Detroit, MI US''\<rparr>]
   \<and> length (event_rows fixture_page) = 2
   \<and> length (all_rows fixture_page) = 3"
proof -
  let ?evs = "[\<lparr>ev_timestamp = \<lparr>dt_year = 2024, dt_month = 6, dt_day = 10,
                             dt_hour = 15, dt_minute = 15\<rparr>,
             ev_message = ''Delivered'', ev_location = ''Detroit, MI US''\<rparr>,
            \<lparr>ev_timestamp = \<lparr>dt_year = 2024, dt_month = 6, dt_day = 10,
                             dt_hour = 9, dt_minute = 2\<rparr>,
             ev_message = ''Out for delivery'', ev_location = ''Detroit, MI US''\<rparr>]"
  note inst = extract_events_document_order [of fixture_page 2024 ?evs]
  from inst have ex: "extract_events 2024 fixture_page = Inr ?evs"
    by blast
  with inst have "map Inr ?evs = map (make_event 2024) (event_rows fixture_page)"
    by blast
  then have "length (map (make_event 2024) (event_rows fixture_page)) = 2"
    by (metis length_map length_Cons list.size(3) numeral_2_eq_2)
  then have two: "length (event_rows fixture_page) = 2"
    by simp
  have three: "length (all_rows fixture_page) = 3"
    by code_simp
  show ?thesis
    using ex two three by blast
qed

subsection \<open>The calls of \<^verbatim>\<open>track\<close>\<close>

text \<open>What \<^verbatim>\<open>track\<close> does, by the answer to its one request.\<close>

lemma track_by_response:
  assumes "url tracking_number = Inr u"
  shows "track env tracking_number =
    (case requests_get env u of
       Inl err \<Rightarrow> ([HttpGet u], Inl (TrackingApiFailure err))
     | Inr r \<Rightarrow>
         if \<not> ok r then
           ([HttpGet u],
            Inl (TrackingApiFailure
                   (''Amazon returned HTTP status: '' @ str_of_int (status_code r))))
         else if \<not> sublist ''carrierRelatedInfo-trackingId-text'' (content r) then
           ([HttpGet u], Inl (TrackingNumberFailure ''No shipment found''))
         else
           ([HttpGet u, HtmlParse (content r)],
            case parse_tracking_response (now_year env) (BeautifulSoup env (content r)) of
              Inl e \<Rightarrow> Inl e
            | Inr data \<Rightarrow>
                set_delivery env
                  (foldl (\<lambda>info event.
                            create_event info (ev_location event) (ev_timestamp event)
                              (ev_message event))
                         (TrackingInfo tracking_number) (td_events data))))"
proof -
  from assms obtain order_id item_id package_idx where
    q: "parse_tracking_number tracking_number ''order_id'' = Some order_id"
       "parse_tracking_number tracking_number ''item_id'' = Some item_id"
       "parse_tracking_number tracking_number ''package_idx'' = Some package_idx"
    and u: "u = url_template_format order_id item_id package_idx"
    by (auto simp: url_def Let_def split: option.splits)
  show ?thesis
    unfolding track_def get_tracking_data_def Let_def q u
    by (simp split: sum.splits)
qed

lemma track_sends_request:
  assumes "url tracking_number = Inr u"
  shows "\<exists>trace result. track env tracking_number = (HttpGet u # trace, result)"
  unfolding track_by_response[OF assms]
  by (simp split: sum.splits)

text \<open>
  C5. When the response is HTTP-successful and its body does not contain the marker
  \<^verbatim>\<open>carrierRelatedInfo-trackingId-text\<close>, \<^verbatim>\<open>track\<close> fails with \<^verbatim>\<open>TrackingNumberFailure\<close>;
  its only effect is the request: the body is not handed to the parser.
\<close>

theorem track_marker_missing:
  assumes "url tracking_number = Inr u"
    and "requests_get env u = Inr r"
    and "ok r"
    and "\<not> sublist ''carrierRelatedInfo-trackingId-text'' (content r)"
  shows "track env tracking_number =
           ([HttpGet u], Inl (TrackingNumberFailure ''No shipment found''))"
  using assms(2-4) by (simp add: track_by_response[OF assms(1)])

theorem track_marker_missing_witness:
  "url ''111-2222222-3333333'' =
     Inr ''https://www.amazon.com/progress-tracker/package/?itemId=0&orderId=111-2222222-3333333&packageIndex=0''
   \<and> ok \<lparr>status_code = 200, content = ''<html><body>Sorry</body></html>''\<rparr>
   \<and> \<not> sublist ''carrierRelatedInfo-trackingId-text'' ''<html><body>Sorry</body></html>''
   \<and> track (fixture_env \<lparr>status_code = 200, content = ''<html><body>Sorry</body></html>''\<rparr>)
        ''111-2222222-3333333'' =
       ([HttpGet ''https://www.amazon.com/progress-tracker/package/?itemId=0&orderId=111-2222222-3333333&packageIndex=0''],
        Inl (TrackingNumberFailure ''No shipment found''))"
proof -
  let ?r = "\<lparr>status_code = 200, content = ''<html><body>Sorry</body></html>''\<rparr>"
  let ?u = "''https://www.amazon.com/progress-tracker/package/?itemId=0&orderId=111-2222222-3333333&packageIndex=0''"
  have h1: "url ''111-2222222-3333333'' = Inr ?u"
    by code_simp
  have h2: "requests_get (fixture_env ?r) ?u = Inr ?r"
    by (simp add: fixture_env_def)
  have h3: "ok ?r"
    by (simp add: ok_def)
  have h4: "\<not> sublist ''carrierRelatedInfo-trackingId-text'' ''<html><body>Sorry</body></html>''"
    by code_simp
  have h4': "\<not> sublist ''carrierRelatedInfo-trackingId-text'' (content ?r)"
    using h4 by simp
  show ?thesis
    using h1 h3 h4 track_marker_missing [OF h1 h2 h3 h4'] by blast
qed

text \<open>
  C6, as amended. When the response has a status from 400 to 599, the statuses for which
  \<^verbatim>\<open>response.ok\<close> is false, \<^verbatim>\<open>track\<close> fails with \<^verbatim>\<open>TrackingApiFailure\<close>, whose message
  ends with the status code; its only effect is the request: the body is not handed to
  the parser.
\<close>

theorem track_http_error_status:
  assumes "url tracking_number = Inr u"
    and "requests_get env u = Inr r"
    and "400 \<le> status_code r"
    and "status_code r < 600"
  shows "track env tracking_number =
           ([HttpGet u],
            Inl (TrackingApiFailure
                   (''Amazon returned HTTP status: '' @ str_of_int (status_code r))))"
proof -
  have "\<not> ok r"
    using assms(3,4) by (simp add: ok_def)
  with assms(2) show ?thesis
    by (simp add: track_by_response[OF assms(1)])
qed

theorem track_http_error_status_witness:
  "url ''111-2222222-3333333'' =
     Inr ''https://www.amazon.com/progress-tracker/package/?itemId=0&orderId=111-2222222-3333333&packageIndex=0''
   \<and> 400 \<le> status_code \<lparr>status_code = 503, content = ''Service Unavailable''\<rparr>
   \<and> status_code \<lparr>status_code = 503, content = ''Service Unavailable''\<rparr> < 600
   \<and> track (fixture_env \<lparr>status_code = 503, content = ''Service Unavailable''\<rparr>)
        ''111-2222222-3333333'' =
       ([HttpGet ''https://www.amazon.com/progress-tracker/package/?itemId=0&orderId=111-2222222-3333333&packageIndex=0''],
        Inl (TrackingApiFailure ''Amazon returned HTTP status: 503''))"
proof -
  let ?r = "\<lparr>status_code = 503, content = ''Service Unavailable''\<rparr>"
  let ?u = "''https://www.amazon.com/progress-tracker/package/?itemId=0&orderId=111-2222222-3333333&packageIndex=0''"
  have h1: "url ''111-2222222-3333333'' = Inr ?u"
    by code_simp
  have h2: "requests_get (fixture_env ?r) ?u = Inr ?r"
    by (simp add: fixture_env_def)
  have h3: "400 \<le> status_code ?r"
    by simp
  have h4: "status_code ?r < 600"
    by simp
  have s: "str_of_int 503 = ''503''"
    by code_simp
  show ?thesis
    using h1 h3 h4 track_http_error_status [OF h1 h2 h3 h4] by (simp add: s)
qed

text \<open>C6 as stated fails: 304 is not a success status, yet \<^verbatim>\<open>response.ok\<close> is true for
  it, and \<^verbatim>\<open>track\<close> goes on to the test for the marker; with the empty body of such a
  response it fails with \<^verbatim>\<open>TrackingNumberFailure\<close>, which carries no status code.\<close>

theorem track_not_modified_counterexample:
  "\<not> http_success 304
   \<and> ok \<lparr>status_code = 304, content = []\<rparr>
   \<and> track (fixture_env \<lparr>status_code = 304, content = []\<rparr>) ''111-2222222-3333333'' =
       ([HttpGet ''https://www.amazon.com/progress-tracker/package/?itemId=0&orderId=111-2222222-3333333&packageIndex=0''],
        Inl (TrackingNumberFailure ''No shipment found''))"
proof -
  let ?u = "''https://www.amazon.com/progress-tracker/package/?itemId=0&orderId=111-2222222-3333333&packageIndex=0''"
  have h1: "url ''111-2222222-3333333'' = Inr ?u"
    by code_simp
  have h2: "\<not> sublist ''carrierRelatedInfo-trackingId-text'' []"
    by simp
  have "track (fixture_env \<lparr>status_code = 304, content = []\<rparr>) ''111-2222222-3333333'' =
       ([HttpGet ?u], Inl (TrackingNumberFailure ''No shipment found''))"
    using h2 by (simp add: track_by_response[OF h1] fixture_env_def ok_def)
  then show ?thesis
    by (simp add: http_success_def ok_def)
qed

text \<open>
  C1. \<^verbatim>\<open>track\<close> does not validate its argument: for the string \<^verbatim>\<open>not-a-number\<close>, which
  \<open>identify\<close> rejects, it sends the request in every environment, and where the carrier
  answers with a page without the marker it fails with \<^verbatim>\<open>TrackingNumberFailure\<close>, after
  the request.
\<close>

theorem track_unrecognized_number_is_fetched:
  "\<not> identify ''not-a-number''
   \<and> (\<exists>trace result. track env ''not-a-number'' =
        (HttpGet ''https://www.amazon.com/progress-tracker/package/?itemId=0&orderId=not-a-number&packageIndex=0''
           # trace, result))
   \<and> track (fixture_env \<lparr>status_code = 200, content = ''<html></html>''\<rparr>) ''not-a-number'' =
       ([HttpGet ''https://www.amazon.com/progress-tracker/package/?itemId=0&orderId=not-a-number&packageIndex=0''],
        Inl (TrackingNumberFailure ''No shipment found''))"
proof -
  let ?u = "''https://www.amazon.com/progress-tracker/package/?itemId=0&orderId=not-a-number&packageIndex=0''"
  have h0: "\<not> identify ''not-a-number''"
    by code_simp
  have h1: "url ''not-a-number'' = Inr ?u"
    by code_simp
  have h4: "\<not> sublist ''carrierRelatedInfo-trackingId-text'' ''<html></html>''"
    by code_simp
  have h5: "track (fixture_env \<lparr>status_code = 200, content = ''<html></html>''\<rparr>) ''not-a-number'' =
       ([HttpGet ?u], Inl (TrackingNumberFailure ''No shipment found''))"
    using h4 by (simp add: track_by_response[OF h1] fixture_env_def ok_def)
  show ?thesis
    using h0 h5 track_sends_request[OF h1, of env] by blast
qed

subsection \<open>The delivered flag and the delivery date\<close>

lemma foldl_create_event_events:
  "ti_events (foldl (\<lambda>info event.
                       create_event info (ev_location event) (ev_timestamp event)
                         (ev_message event)) info0 evs) =
   ti_events info0 @
     map (\<lambda>event. \<lparr>te_location = ev_location event, te_timestamp = ev_timestamp event,
                    te_detail = ev_message event\<rparr>) evs"
  by (induction evs arbitrary: info0) (simp_all add: create_event_def)

lemma foldl_create_event_other:
  "ti_tracking_number (foldl (\<lambda>info event.
                       create_event info (ev_location event) (ev_timestamp event)
                         (ev_message event)) info0 evs) = ti_tracking_number info0
   \<and> ti_is_delivered (foldl (\<lambda>info event.
                       create_event info (ev_location event) (ev_timestamp event)
                         (ev_message event)) info0 evs) = ti_is_delivered info0
   \<and> ti_delivery_date (foldl (\<lambda>info event.
                       create_event info (ev_location event) (ev_timestamp event)
                         (ev_message event)) info0 evs) = ti_delivery_date info0"
  by (induction evs arbitrary: info0) (simp_all add: create_event_def)

text \<open>What the end of \<^verbatim>\<open>track\<close> establishes, in terms of the two attributes that
  \<^verbatim>\<open>TrackingInfo\<close> computes: the flag compares the status with \<^verbatim>\<open>delivered\<close> without
  regard to case, and the delivery date is \<^verbatim>\<open>last_update\<close> when the flag is set and is
  left as it was otherwise.\<close>

lemma set_delivery_Inr:
  assumes "set_delivery env info0 = Inr info"
  shows "\<exists>status. info_status env info0 = Inr status
           \<and> ti_is_delivered info = (unicode_lower status = ''delivered'')
           \<and> ti_events info = ti_events info0
           \<and> (if ti_is_delivered info
               then \<exists>t. info_last_update env (info0\<lparr>ti_is_delivered := True\<rparr>) = Inr t
                        \<and> ti_delivery_date info = Some t
               else ti_delivery_date info = ti_delivery_date info0)"
  using assms
  by (auto simp: set_delivery_def status_is_delivered_def Let_def split: sum.splits if_splits)

text \<open>A successful \<^verbatim>\<open>track\<close>: the events of the result are the events of the page in
  the order of extraction; the flag is the comparison of the status that
  \<^verbatim>\<open>TrackingInfo\<close> reports for them; the delivery date is set exactly when the flag is.\<close>

lemma track_Inr:
  assumes "track env tracking_number = (trace, Inr info)"
  shows "\<exists>(evs :: raw_event list) status.
           ti_events info =
             map (\<lambda>event. \<lparr>te_location = ev_location event, te_timestamp = ev_timestamp event,
                            te_detail = ev_message event\<rparr>) evs
         \<and> info_status env
              \<lparr>ti_tracking_number = tracking_number,
               ti_events =
                 map (\<lambda>event. \<lparr>te_location = ev_location event,
                                te_timestamp = ev_timestamp event,
                                te_detail = ev_message event\<rparr>) evs,
               ti_is_delivered = False, ti_delivery_date = None\<rparr> = Inr status
         \<and> ti_is_delivered info = (unicode_lower status = ''delivered'')
         \<and> (ti_delivery_date info \<noteq> None \<longleftrightarrow> ti_is_delivered info)"
proof -
  let ?conv = "\<lambda>event. \<lparr>te_location = ev_location event, te_timestamp = ev_timestamp event,
                          te_detail = ev_message event\<rparr>"
  let ?app = "\<lambda>info event. create_event info (ev_location event) (ev_timestamp event)
                              (ev_message event)"
  obtain u where u: "url tracking_number = Inr u"
    using url_total by blast
  from assms obtain data :: tracking_data where
    sd: "set_delivery env (foldl ?app (TrackingInfo tracking_number) (td_events data)) = Inr info"
    unfolding track_by_response[OF u]
    by (auto split: sum.splits if_splits)
  let ?info0 = "foldl ?app (TrackingInfo tracking_number) (td_events data)"
  have ev0: "ti_events ?info0 = map ?conv (td_events data)"
    by (simp add: foldl_create_event_events TrackingInfo_def)
  have other: "ti_tracking_number ?info0 = tracking_number
      \<and> ti_is_delivered ?info0 = False \<and> ti_delivery_date ?info0 = None"
    by (simp add: foldl_create_event_other TrackingInfo_def)
  have eq0: "?info0 = \<lparr>ti_tracking_number = tracking_number,
      ti_events = map ?conv (td_events data), ti_is_delivered = False, ti_delivery_date = None\<rparr>"
    using ev0 other by (cases ?info0) simp
  from set_delivery_Inr[OF sd] obtain status where
    st: "info_status env ?info0 = Inr status"
        "ti_is_delivered info = (unicode_lower status = ''delivered'')"
        "ti_events info = ti_events ?info0"
        "if ti_is_delivered info
         then \<exists>t. info_last_update env (?info0\<lparr>ti_is_delivered := True\<rparr>) = Inr t
                  \<and> ti_delivery_date info = Some t
         else ti_delivery_date info = ti_delivery_date ?info0"
    by blast
  have dd: "ti_delivery_date info \<noteq> None \<longleftrightarrow> ti_is_delivered info"
    using st(4) other by (auto split: if_splits)
  have evs: "ti_events info = map ?conv (td_events data)"
    using st(3) ev0 by simp
  have stat: "info_status env
      \<lparr>ti_tracking_number = tracking_number, ti_events = map ?conv (td_events data),
       ti_is_delivered = False, ti_delivery_date = None\<rparr> = Inr status"
    using st(1) eq0 by simp
  from evs stat st(2) dd show ?thesis
    by blast
qed


end
